theory Spec2Isabelle
  imports Main
begin

section \<open>JavaScript values and property access\<close>

text \<open>
  The payloads exchanged with the hosted widget, the remote endpoint and the checkout
  form are plain JavaScript data. Objects are association lists (the first binding of a
  key is the one a lookup finds); numbers are the integer-valued ones (status codes,
  identifiers). Arrays and functions do not occur at the paths the handlers inspect and
  are left out of the value domain.
\<close>

datatype jsval =
    JUndefined
  | JNull
  | JBool bool
  | JNum int
  | JStr string
  | JObj "(string \<times> jsval) list"

text \<open>
  What a handler can be left with: a \<open>TypeError\<close> raised by the runtime (property read
  on \<open>undefined\<close>/\<open>null\<close>, call of a non-function), or the rejection value of the
  remote call: an \<open>RPCError\<close> carrying its \<open>data\<close> field, or any other error.
\<close>

datatype error = TypeError | RPCError jsval | OtherError string

datatype 'a outcome = Returned 'a | Threw error

text \<open>
  \<open>v.k\<close>: throws on \<open>undefined\<close> and \<open>null\<close>, and is \<open>undefined\<close> for a key the
  object does not have. None of the keys the handlers read (\<open>result\<close>, \<open>status\<close>,
  \<open>statusCode\<close>, \<open>message\<close>, \<open>payment_details\<close>, \<open>booking_details\<close>, \<open>process_mode\<close>,
  \<open>wallet_token\<close>, \<open>card_details\<close>, \<open>type\<close>, \<open>reference\<close>, \<open>nn_tid\<close>) is inherited from
  a prototype, so on a boolean, a number or a string they read as \<open>undefined\<close>.
\<close>

fun get_prop :: "jsval \<Rightarrow> string \<Rightarrow> jsval outcome" where
  "get_prop JUndefined k = Threw TypeError"
| "get_prop JNull k = Threw TypeError"
| "get_prop (JObj kvs) k =
     (case map_of kvs k of Some x \<Rightarrow> Returned x | None \<Rightarrow> Returned JUndefined)"
| "get_prop v k = Returned JUndefined"

text \<open>Whether an object carries the key at all (\<open>k in v\<close>).\<close>

fun has_key :: "jsval \<Rightarrow> string \<Rightarrow> bool" where
  "has_key (JObj kvs) k = (map_of kvs k \<noteq> None)"
| "has_key v k = False"

text \<open>The condition of \<open>if (v)\<close> and of \<open>v && ...\<close>.\<close>

fun truthy :: "jsval \<Rightarrow> bool" where
  "truthy JUndefined = False"
| "truthy JNull = False"
| "truthy (JBool b) = b"
| "truthy (JNum n) = (n \<noteq> 0)"
| "truthy (JStr s) = (s \<noteq> [])"
| "truthy (JObj kvs) = True"

text \<open>
  \<open>v == 100\<close> (loose equality against a number). A string operand is converted by the
  runtime's StringToNumber, which is not code of this repository and is taken as the
  parameter \<open>str2num\<close>; a boolean converts to 0 or 1; \<open>undefined\<close>, \<open>null\<close> and plain
  data objects are never loosely equal to a number.
\<close>

fun loose_eq_100 :: "(string \<Rightarrow> int option) \<Rightarrow> jsval \<Rightarrow> bool" where
  "loose_eq_100 str2num (JNum n) = (n = 100)"
| "loose_eq_100 str2num (JStr s) = (str2num s = Some 100)"
| "loose_eq_100 str2num v = False"

section \<open>The checkout context\<close>

text \<open>
  \<open>this.paymentContext\<close> is a mutable object: a key is absent (\<open>None\<close>) or bound to a
  value, which may itself be \<open>undefined\<close>.
\<close>

type_synonym ctx = "string \<rightharpoonup> jsval"

definition ctx_get :: "ctx \<Rightarrow> string \<Rightarrow> jsval" where
  "ctx_get c k = (case c k of None \<Rightarrow> JUndefined | Some v \<Rightarrow> v)"

subsection \<open>set_nn_payment_details\<close>

text \<open>
  The function is \<open>async\<close> and has no \<open>await\<close>: its body runs to the end or to the first
  throw at the call, the writes made before a throw stay, and the throw becomes the
  rejection of the returned promise (\<open>Threw\<close> in the first component).
\<close>

definition set_nn_payment_details :: "jsval \<Rightarrow> ctx \<Rightarrow> unit outcome \<times> ctx" where
  "set_nn_payment_details response c0 =
     (case get_prop response ''payment_details'' of
        Threw e \<Rightarrow> (Threw e, c0)
      | Returned pd \<Rightarrow>
     (let c1 = c0(''pm_data'' \<mapsto> pd) in
     (case get_prop response ''booking_details'' of
        Threw e \<Rightarrow> (Threw e, c1)
      | Returned bd \<Rightarrow>
     (let c2 = c1(''payment_details'' \<mapsto> bd) in
     (case get_prop pd ''process_mode'' of
        Threw e \<Rightarrow> (Threw e, c2)
      | Returned pm \<Rightarrow>
     (let c3 = c2(''flow'' \<mapsto> pm) in
     (case get_prop bd ''wallet_token'' of
        Threw e \<Rightarrow> (Threw e, c3)
      | Returned wt \<Rightarrow>
     (let c4 = (if truthy wt then c3(''wallet_token'' \<mapsto> wt) else c3) in
     (case get_prop response ''card_details'' of
        Threw e \<Rightarrow> (Threw e, c4)
      | Returned cd \<Rightarrow>
          (Returned (), if truthy cd then c4(''card_details'' \<mapsto> cd) else c4))))))))))"

section \<open>The form and its observable effects\<close>

text \<open>
  Every call that leaves the overriding code is logged as an event, oldest first: calls
  to the host form (\<open>this._disableButton\<close>, \<open>this._enableButton\<close>,
  \<open>this._displayErrorDialog\<close> with the arguments passed, \<open>this._initiatePaymentFlow\<close>,
  \<open>this._assignToken\<close>, \<open>this._super\<close>, \<open>this.call('ui', 'unblock')\<close>), to the submit
  event, to the hosted widget, to the DOM, to the remote endpoint and to
  \<open>window.location\<close>. A rejected promise that nobody awaits is logged too.
\<close>

datatype event =
    StopPropagation
  | PreventDefault
  | DisableButton bool
  | EnableButton
  | DisplayErrorDialog "jsval list"
  | InitiatePaymentFlow jsval jsval jsval jsval
  | AssignToken jsval
  | UiUnblock
  | SuperStart
  | SuperSubmitForm
  | SuperPrepareInlineForm
  | SuperProcessDirectFlow
  | SetPaymentFlow string
  | WidgetInitiate jsval
  | WidgetGetPayment
  | WidgetUncheckPayment
  | SetOptionPadding string
  | SetPayButtonDisplay string
  | ClickNovalnetRadio
  | JsonRpc string jsval
  | Navigate string
  | UnhandledRejection error

fun is_widget_call :: "event \<Rightarrow> bool" where
  "is_widget_call (WidgetInitiate cfg) = True"
| "is_widget_call WidgetGetPayment = True"
| "is_widget_call WidgetUncheckPayment = True"
| "is_widget_call e = False"

fun is_remote_call :: "event \<Rightarrow> bool" where
  "is_remote_call (JsonRpc route params) = True"
| "is_remote_call e = False"

fun is_dialog :: "event \<Rightarrow> bool" where
  "is_dialog (DisplayErrorDialog args) = True"
| "is_dialog e = False"

fun is_initiate_flow :: "event \<Rightarrow> bool" where
  "is_initiate_flow (InitiatePaymentFlow a b c d) = True"
| "is_initiate_flow e = False"

text \<open>
  The form: its context, the effect log, and the registrations made by \<open>start\<close>: the
  number of handlers jQuery holds for the window's change event and for clicks on the
  provider elements, the number of widget objects constructed so far, and the number of
  callbacks registered on the widget object that \<open>this.novalnetPaymentIframe\<close> holds.
\<close>

record form =
  paymentContext :: ctx
  events :: "event list"
  window_change_handlers :: nat
  provider_click_handlers :: nat
  widgets_created :: nat
  selectedPayment_callbacks :: nat
  walletResponse_callbacks :: nat

definition emit :: "event \<Rightarrow> form \<Rightarrow> form" where
  "emit e s = s\<lparr>events := events s @ [e]\<rparr>"

definition ctx_set :: "string \<Rightarrow> jsval \<Rightarrow> form \<Rightarrow> form" where
  "ctx_set k v s = s\<lparr>paymentContext := (paymentContext s)(k \<mapsto> v)\<rparr>"

text \<open>
  Modelled from the spec: \<open>_disableButton\<close> and \<open>_enableButton\<close> belong to the host form
  and are not in the repository; the spec has them disable and re-enable the submit
  control. The state of the control after a log, from its state before.
\<close>

fun button_disabled :: "event list \<Rightarrow> bool \<Rightarrow> bool" where
  "button_disabled [] d = d"
| "button_disabled (DisableButton blockUI # es) d = button_disabled es True"
| "button_disabled (EnableButton # es) d = button_disabled es False"
| "button_disabled (e # es) d = button_disabled es d"

text \<open>
  The checked radio (\<open>input[name="o_payment_radio"]:checked\<close>) as the host form's getters
  read it at the time of the call: \<open>_getPaymentFlow\<close>, \<open>_getPaymentOptionId\<close>,
  \<open>_getProviderCode\<close>, \<open>_getPaymentMethodCode\<close>, \<open>_getProviderId\<close>,
  \<open>_getPaymentOptionType\<close>, and the tokenize checkbox of its inline form
  (\<open>None\<close> when the inline form or the checkbox is missing). The getters are the
  host's; the handlers are modelled for a page on which a radio is checked.
\<close>

record selection =
  sel_flow :: jsval
  sel_paymentOptionId :: jsval
  sel_providerCode :: jsval
  sel_paymentMethodCode :: jsval
  sel_providerId :: jsval
  sel_paymentOptionType :: jsval
  sel_tokenizeChecked :: "bool option"

text \<open>
  \<open>inlineForm?.querySelector(...)?.checked ?? this.paymentContext['mode'] === 'validation'\<close>
\<close>

definition tokenizationRequested :: "selection \<Rightarrow> ctx \<Rightarrow> jsval" where
  "tokenizationRequested sel c =
     (case sel_tokenizeChecked sel of
        Some b \<Rightarrow> JBool b
      | None \<Rightarrow> JBool (ctx_get c ''mode'' = JStr ''validation''))"

text \<open>
  A call of \<open>set_nn_payment_details\<close> from a handler: the promise is dropped, so a throw
  inside it does not reach the handler.
\<close>

definition record_details :: "jsval \<Rightarrow> form \<Rightarrow> form" where
  "record_details response s =
     (case set_nn_payment_details response (paymentContext s) of
        (Returned u, c) \<Rightarrow> s\<lparr>paymentContext := c\<rparr>
      | (Threw e, c) \<Rightarrow> emit (UnhandledRejection e) (s\<lparr>paymentContext := c\<rparr>))"

subsection \<open>onProcessCompletion (the walletResponse callback)\<close>

type_synonym ack = "string \<times> string"

definition FAILURE_ack :: ack where
  "FAILURE_ack = (''FAILURE'', ''Failure'')"

definition SUCCESS_ack :: ack where
  "SUCCESS_ack = (''SUCCESS'', ''Successful'')"

definition onProcessCompletion :: "selection \<Rightarrow> jsval \<Rightarrow> form \<Rightarrow> ack outcome \<times> form" where
  "onProcessCompletion sel response s0 =
     (let s1 = emit (DisableButton False) s0 in
     (case get_prop response ''result'' of
        Threw e \<Rightarrow> (Threw e, s1)
      | Returned result \<Rightarrow>
     (case get_prop result ''status'' of
        Threw e \<Rightarrow> (Threw e, s1)
      | Returned st \<Rightarrow>
     (if st = JStr ''FAILURE'' then (Returned FAILURE_ack, s1)
      else
     (let providerCode = sel_providerCode sel;
          s2 = ctx_set ''providerCode'' providerCode s1 in
     (if providerCode \<noteq> JStr ''novalnet'' then (Returned FAILURE_ack, s2)
      else
     (let paymentOptionId = sel_paymentOptionId sel;
          s3 = ctx_set ''paymentOptionId'' paymentOptionId s2;
          pmCode = sel_paymentMethodCode sel;
          s4 = ctx_set ''paymentMethodCode'' pmCode s3;
          s5 = record_details response s4;
          s6 = ctx_set ''providerId'' (sel_providerId sel) s5;
          s7 = ctx_set ''paymentMethodId'' paymentOptionId s6;
          s8 = ctx_set ''tokenizationRequested''
                 (tokenizationRequested sel (paymentContext s7)) s7;
          s9 = emit (InitiatePaymentFlow providerCode paymentOptionId pmCode
                      (ctx_get (paymentContext s8) ''flow'')) s8
      in (Returned SUCCESS_ack, s9))))))))"

subsection \<open>_submitForm and the getPayment callback\<close>

text \<open>
  What the getPayment callback closes over: the values read from the checked radio when
  the form was submitted.
\<close>

record closure =
  cl_providerCode :: jsval
  cl_paymentOptionId :: jsval
  cl_pmCode :: jsval

datatype submitted = Delegated | TokenAssigned | AwaitingWidget closure

definition submitForm :: "selection \<Rightarrow> form \<Rightarrow> submitted \<times> form" where
  "submitForm sel s0 =
     (let s1 = emit StopPropagation s0;
          s2 = emit PreventDefault s1;
          s3 = emit (DisableButton True) s2;
          flow = sel_flow sel;
          s4 = ctx_set ''flow'' flow s3;
          paymentOptionId = sel_paymentOptionId sel;
          s5 = ctx_set ''paymentOptionId'' paymentOptionId s4;
          providerCode = sel_providerCode sel;
          s6 = ctx_set ''providerCode'' providerCode s5 in
     (if providerCode \<noteq> JStr ''novalnet'' then (Delegated, emit SuperSubmitForm s6)
      else if flow = JStr ''token'' \<and> truthy (ctx_get (paymentContext s6) ''assignTokenRoute'')
      then (TokenAssigned, emit (AssignToken paymentOptionId) s6)
      else
     (let pmCode = sel_paymentMethodCode sel;
          s7 = ctx_set ''paymentMethodCode'' pmCode s6;
          s8 = ctx_set ''providerId'' (sel_providerId sel) s7;
          s9 = (if sel_paymentOptionType sel = JStr ''token''
                then ctx_set ''tokenId'' paymentOptionId s8
                else ctx_set ''paymentMethodId'' paymentOptionId s8);
          s10 = ctx_set ''tokenizationRequested''
                  (tokenizationRequested sel (paymentContext s9)) s9;
          s11 = emit WidgetGetPayment s10
      in (AwaitingWidget \<lparr>cl_providerCode = providerCode,
            cl_paymentOptionId = paymentOptionId, cl_pmCode = pmCode\<rparr>, s11))))"

text \<open>
  The callback handed to \<open>getPayment\<close>, run when the widget answers with \<open>data\<close>.
  \<open>tr\<close> is the host's translation function \<open>_t\<close>; \<open>on_donation\<close> is
  \<open>window.location.pathname.includes('/donation')\<close>.
\<close>

definition getPayment_callback ::
  "(string \<Rightarrow> int option) \<Rightarrow> (jsval \<Rightarrow> jsval) \<Rightarrow> bool \<Rightarrow> closure \<Rightarrow> jsval \<Rightarrow> form
     \<Rightarrow> unit outcome \<times> form" where
  "getPayment_callback str2num tr on_donation cl data s0 =
     (case get_prop data ''result'' of
        Threw e \<Rightarrow> (Threw e, s0)
      | Returned result \<Rightarrow>
     (case (if truthy result
            then (case get_prop result ''statusCode'' of
                    Threw e \<Rightarrow> Threw e
                  | Returned code \<Rightarrow> Returned (loose_eq_100 str2num code))
            else Returned False) of
        Threw e \<Rightarrow> (Threw e, s0)
      | Returned True \<Rightarrow>
          (let s1 = record_details data s0;
               s2 = emit (InitiatePaymentFlow (cl_providerCode cl) (cl_paymentOptionId cl)
                           (cl_pmCode cl) (ctx_get (paymentContext s1) ''flow'')) s1
           in (Returned (), if on_donation then emit UiUnblock s2 else s2))
      | Returned False \<Rightarrow>
          (case get_prop result ''message'' of
             Threw e \<Rightarrow> (Threw e, s0)
           | Returned message \<Rightarrow>
               (Returned (), emit EnableButton (emit (DisplayErrorDialog [tr message]) s0)))))"

subsection \<open>_prepareTransactionRouteParams and _prepareInlineForm\<close>

text \<open>\<open>super_params\<close> is what \<open>this._super()\<close> returns; \<open>{...a, ...b}\<close> is \<open>a ++ b\<close>.\<close>

definition prepareTransactionRouteParams :: "ctx \<Rightarrow> ctx \<Rightarrow> ctx" where
  "prepareTransactionRouteParams super_params c =
     (if ctx_get c ''providerCode'' \<noteq> JStr ''novalnet'' then super_params
      else super_params ++
             [''pay_data'' \<mapsto> ctx_get c ''payment_details'', ''pm_data'' \<mapsto> ctx_get c ''pm_data''])"

definition prepareInlineForm :: "jsval \<Rightarrow> jsval \<Rightarrow> form \<Rightarrow> form" where
  "prepareInlineForm providerCode flow s =
     (if providerCode \<noteq> JStr ''novalnet'' then emit SuperPrepareInlineForm s
      else if flow = JStr ''token'' then s
      else emit (SetPaymentFlow ''direct'') s)"

subsection \<open>processNovalnetPayment (the mixin) and _processDirectFlow\<close>

text \<open>
  \<open>processNovalnetPayment\<close> reaches the dialog and the submit control through \<open>this\<close>.
  The receiver is whatever object the method is called on; what matters of it is which of
  the two methods it has.
\<close>

record receiver =
  has_displayErrorDialog :: bool
  has_enableButton :: bool

text \<open>The module's default export: an object whose only member is the method itself.\<close>

definition mixin_object :: receiver where
  "mixin_object = \<lparr>has_displayErrorDialog = False, has_enableButton = False\<rparr>"

text \<open>How the remote call ends, and how the promise chain hanging on it ends.\<close>

datatype rpc_reply = RpcResolved | RpcRejected error

datatype chain = NotStarted | Settled "unit outcome"

text \<open>
  The handler given to \<open>.catch\<close>. In the call
  \<open>this._displayErrorDialog(_t("Payment processing failed"), error.data.message)\<close> the
  arguments are evaluated first, then the callee is checked to be a function;
  \<open>this._enableButton?.()\<close> is skipped when the member is missing. For an error that is
  not an \<open>RPCError\<close> the handler returns a rejected promise of the same error.
\<close>

definition catch_handler ::
  "(jsval \<Rightarrow> jsval) \<Rightarrow> receiver \<Rightarrow> error \<Rightarrow> form \<Rightarrow> unit outcome \<times> form" where
  "catch_handler tr this err s =
     (case err of
        RPCError d \<Rightarrow>
          (let title = tr (JStr ''Payment processing failed'') in
          (case get_prop d ''message'' of
             Threw e \<Rightarrow> (Threw e, s)
           | Returned message \<Rightarrow>
               (if has_displayErrorDialog this
                then (let s1 = emit (DisplayErrorDialog [title, message]) s
                      in (Returned (), if has_enableButton this then emit EnableButton s1 else s1))
                else (Threw TypeError, s))))
      | TypeError \<Rightarrow> (Threw err, s)
      | OtherError msg \<Rightarrow> (Threw err, s))"

text \<open>
  The result: the promise of the \<open>async\<close> method itself (the chain is neither returned
  nor awaited, so the method's promise is fulfilled as soon as the call is issued), the
  end of the \<open>jsonrpc(...).then(...).catch(...)\<close> chain, and the form.
\<close>

definition processNovalnetPayment ::
  "(jsval \<Rightarrow> jsval) \<Rightarrow> receiver \<Rightarrow> jsval \<Rightarrow> rpc_reply \<Rightarrow> form
     \<Rightarrow> unit outcome \<times> chain \<times> form" where
  "processNovalnetPayment tr this processingValues reply s0 =
     (case get_prop processingValues ''reference'' of
        Threw e \<Rightarrow> (Threw e, NotStarted, s0)
      | Returned reference \<Rightarrow>
     (case get_prop processingValues ''nn_tid'' of
        Threw e \<Rightarrow> (Threw e, NotStarted, s0)
      | Returned nn_tid \<Rightarrow>
     (let s1 = emit (JsonRpc ''/payment/novalnet/simulate_payment''
                      (JObj [(''reference'', reference), (''nn_tid'', nn_tid)])) s0 in
     (case reply of
        RpcResolved \<Rightarrow>
          (Returned (), Settled (Returned ()), emit (Navigate ''/payment/status'') s1)
      | RpcRejected err \<Rightarrow>
          (case catch_handler tr this err s1 of
             (Returned u, s2) \<Rightarrow> (Returned (), Settled (Returned ()), s2)
           | (Threw e, s2) \<Rightarrow> (Returned (), Settled (Threw e), emit (UnhandledRejection e) s2))))))"

text \<open>
  \<open>_processDirectFlow\<close> calls the method on the mixin object and drops its promise.
\<close>

definition processDirectFlow ::
  "(jsval \<Rightarrow> jsval) \<Rightarrow> jsval \<Rightarrow> jsval \<Rightarrow> rpc_reply \<Rightarrow> form \<Rightarrow> chain \<times> form" where
  "processDirectFlow tr providerCode processingValues reply s =
     (if providerCode \<noteq> JStr ''novalnet'' then (NotStarted, emit SuperProcessDirectFlow s)
      else
     (case processNovalnetPayment tr mixin_object processingValues reply s of
        (Returned u, ch, s1) \<Rightarrow> (ch, s1)
      | (Threw e, ch, s1) \<Rightarrow> (ch, emit (UnhandledRejection e) s1)))"

subsection \<open>start and the handlers it registers\<close>

definition paymentFormRequestObj :: jsval where
  "paymentFormRequestObj =
     JObj [(''iframe'', JStr ''#novalnet_iframe''),
           (''initForm'', JObj [(''orderInformation'', JObj []),
                                (''uncheckPayments'', JBool True),
                                (''setWalletPending'', JBool True),
                                (''showButton'', JBool False)])]"

text \<open>
  \<open>new NovalnetPaymentForm()\<close> puts a fresh widget object, with no callbacks yet, into
  \<open>this.novalnetPaymentIframe\<close>; \<open>selectedPayment\<close> and \<open>walletResponse\<close> register one
  callback each on it. jQuery's \<open>.on\<close> adds a handler to those the target already has.
\<close>

definition start :: "form \<Rightarrow> form" where
  "start s0 =
     (let s1 = emit SuperStart s0;
          s2 = s1\<lparr>widgets_created := Suc (widgets_created s1),
                  selectedPayment_callbacks := 0, walletResponse_callbacks := 0\<rparr>;
          s3 = emit (WidgetInitiate paymentFormRequestObj) s2;
          s4 = emit (SetOptionPadding ''0px'') s3;
          s5 = s4\<lparr>window_change_handlers := Suc (window_change_handlers s4)\<rparr>;
          s6 = s5\<lparr>selectedPayment_callbacks := Suc (selectedPayment_callbacks s5)\<rparr>;
          s7 = s6\<lparr>provider_click_handlers := Suc (provider_click_handlers s6)\<rparr>;
          s8 = s7\<lparr>walletResponse_callbacks := Suc (walletResponse_callbacks s7)\<rparr>
      in s8)"

text \<open>
  The window's change handler; \<open>has_button\<close> says whether the pay button is in the page
  (its \<open>style\<close> is read without a check), \<open>novalnet_checked\<close> whether this provider's
  radio is checked.
\<close>

definition window_change_handler :: "bool \<Rightarrow> bool \<Rightarrow> form \<Rightarrow> unit outcome \<times> form" where
  "window_change_handler has_button novalnet_checked s =
     (if novalnet_checked then (Returned (), s)
      else if has_button then (Returned (), emit (SetPayButtonDisplay ''block'') s)
      else (Threw TypeError, s))"

text \<open>The click handler on the provider elements; \<open>code\<close> is the element's provider code.\<close>

definition provider_click_handler :: "jsval \<Rightarrow> form \<Rightarrow> form" where
  "provider_click_handler code s =
     (if code \<noteq> JStr ''novalnet'' then emit WidgetUncheckPayment s else s)"

text \<open>The callback given to \<open>selectedPayment\<close>.\<close>

definition selectedPayment_callback :: "bool \<Rightarrow> jsval \<Rightarrow> form \<Rightarrow> unit outcome \<times> form" where
  "selectedPayment_callback has_button data s0 =
     (let s1 = emit ClickNovalnetRadio s0 in
     (if has_button
      then (case get_prop data ''payment_details'' of
              Threw e \<Rightarrow> (Threw e, s1)
            | Returned pd \<Rightarrow>
           (case get_prop pd ''type'' of
              Threw e \<Rightarrow> (Threw e, s1)
            | Returned ty \<Rightarrow>
                (Returned (),
                 emit (SetPayButtonDisplay
                         (if ty = JStr ''GOOGLEPAY'' \<or> ty = JStr ''APPLEPAY''
                          then ''none'' else ''block'')) s1)))
      else (Returned (), s1)))"

text \<open>
  One click on a provider element runs every click handler registered so far, one after
  the other; likewise one change event on the window, where a throwing handler ends the
  dispatch.
\<close>

definition fire_provider_click :: "jsval \<Rightarrow> form \<Rightarrow> form" where
  "fire_provider_click code s = (provider_click_handler code ^^ provider_click_handlers s) s"

fun run_change_handlers :: "nat \<Rightarrow> bool \<Rightarrow> bool \<Rightarrow> form \<Rightarrow> unit outcome \<times> form" where
  "run_change_handlers 0 has_button novalnet_checked s = (Returned (), s)"
| "run_change_handlers (Suc n) has_button novalnet_checked s =
     (case window_change_handler has_button novalnet_checked s of
        (Returned u, s1) \<Rightarrow> run_change_handlers n has_button novalnet_checked s1
      | (Threw e, s1) \<Rightarrow> (Threw e, s1))"

definition fire_window_change :: "bool \<Rightarrow> bool \<Rightarrow> form \<Rightarrow> unit outcome \<times> form" where
  "fire_window_change has_button novalnet_checked s =
     run_change_handlers (window_change_handlers s) has_button novalnet_checked s"

text \<open>A form on which nothing has happened yet.\<close>

definition fresh_form :: form where
  "fresh_form = \<lparr>paymentContext = Map.empty, events = [], window_change_handlers = 0,
     provider_click_handlers = 0, widgets_created = 0, selectedPayment_callbacks = 0,
     walletResponse_callbacks = 0\<rparr>"

section \<open>Concrete checkout situations\<close>

text \<open>Checked radios of another provider and of this one.\<close>

definition stripe_selection :: selection where
  "stripe_selection = \<lparr>sel_flow = JStr ''redirect'', sel_paymentOptionId = JNum 7,
     sel_providerCode = JStr ''stripe'', sel_paymentMethodCode = JStr ''card'',
     sel_providerId = JNum 3, sel_paymentOptionType = JStr ''payment_method'',
     sel_tokenizeChecked = None\<rparr>"

definition novalnet_selection :: selection where
  "novalnet_selection = \<lparr>sel_flow = JStr ''direct'', sel_paymentOptionId = JNum 12,
     sel_providerCode = JStr ''novalnet'', sel_paymentMethodCode = JStr ''novalnet'',
     sel_providerId = JNum 5, sel_paymentOptionType = JStr ''payment_method'',
     sel_tokenizeChecked = None\<rparr>"

definition novalnet_closure :: closure where
  "novalnet_closure = \<lparr>cl_providerCode = JStr ''novalnet'', cl_paymentOptionId = JNum 12,
     cl_pmCode = JStr ''novalnet''\<rparr>"

text \<open>A form whose context already names this provider, with no widget result recorded.\<close>

definition novalnet_form :: form where
  "novalnet_form = fresh_form\<lparr>paymentContext := [''providerCode'' \<mapsto> JStr ''novalnet'']\<rparr>"

text \<open>Wallet completions: an authorised Google Pay payment, and a failure.\<close>

definition wallet_success :: jsval where
  "wallet_success =
     JObj [(''result'', JObj [(''status'', JStr ''SUCCESS'')]),
           (''payment_details'',
              JObj [(''type'', JStr ''GOOGLEPAY''), (''process_mode'', JStr ''direct'')]),
           (''booking_details'', JObj [(''wallet_token'', JStr ''tok_1'')])]"

definition wallet_failure :: jsval where
  "wallet_failure =
     JObj [(''result'',
              JObj [(''status'', JStr ''FAILURE''), (''message'', JStr ''Card declined'')])]"

text \<open>
  Answers to \<open>getPayment\<close>: accepted, declined with code 150, accepted with an empty
  wallet token in the booking details, and one that carries no \<open>result\<close>.
\<close>

definition accepted :: jsval where
  "accepted =
     JObj [(''result'', JObj [(''statusCode'', JNum 100)]),
           (''payment_details'',
              JObj [(''type'', JStr ''CREDITCARD''), (''process_mode'', JStr ''direct'')]),
           (''booking_details'', JObj [(''test_mode'', JNum 1)])]"

definition declined :: jsval where
  "declined =
     JObj [(''result'',
              JObj [(''statusCode'', JNum 150), (''message'', JStr ''Card declined'')])]"

definition accepted_empty_token :: jsval where
  "accepted_empty_token =
     JObj [(''result'', JObj [(''statusCode'', JNum 100)]),
           (''payment_details'',
              JObj [(''type'', JStr ''GOOGLEPAY''), (''process_mode'', JStr ''direct'')]),
           (''booking_details'', JObj [(''wallet_token'', JStr [])])]"

definition no_result :: jsval where
  "no_result = JObj [(''payment_details'', JObj [])]"

text \<open>Processing values of a transaction, and a remote call refused by the server.\<close>

definition processing_values :: jsval where
  "processing_values =
     JObj [(''reference'', JStr ''S00042-1''), (''nn_tid'', JStr ''14850900024915824'')]"

definition expired :: rpc_reply where
  "expired = RpcRejected (RPCError (JObj [(''message'', JStr ''Reference expired'')]))"

section \<open>Properties\<close>

subsection \<open>Auxiliary facts\<close>

lemma get_prop_defined:
  "v \<noteq> JUndefined \<Longrightarrow> v \<noteq> JNull \<Longrightarrow> \<exists>x. get_prop v k = Returned x"
  by (cases v) (auto split: option.splits)

lemma get_prop_JNum_truthy: "get_prop v k = Returned (JNum n) \<Longrightarrow> truthy v"
  by (cases v) (auto split: option.splits)

lemma acks_differ: "SUCCESS_ack \<noteq> FAILURE_ack"
  by (simp add: SUCCESS_ack_def FAILURE_ack_def)

lemma button_disabled_append:
  "button_disabled (es @ es') d = button_disabled es' (button_disabled es d)"
  by (induction es d rule: button_disabled.induct) simp_all

lemma button_disabled_snoc_enable: "button_disabled (es @ [EnableButton]) d = False"
  by (simp add: button_disabled_append)

lemma click_events:
  "events (provider_click_handler code s)
     = events s @ (if code \<noteq> JStr ''novalnet'' then [WidgetUncheckPayment] else [])"
  by (simp add: provider_click_handler_def emit_def)

lemma funpow_click_events:
  "events ((provider_click_handler code ^^ n) s)
     = events s @ (if code \<noteq> JStr ''novalnet'' then replicate n WidgetUncheckPayment else [])"
  by (induction n) (simp_all add: click_events replicate_append_same)

text \<open>Every submit, whatever is selected, leaves the submit control disabled.\<close>

lemma submitForm_disables: "button_disabled (events (snd (submitForm sel s))) d = True"
  by (simp add: submitForm_def Let_def emit_def ctx_set_def button_disabled_append)

text \<open>
  What the mixin method does for any receiver when the remote call succeeds or fails with
  an unclassified error, and for a receiver that has \<open>_displayErrorDialog\<close> when the
  server refuses the call.
\<close>

lemma processNovalnetPayment_success:
  assumes "get_prop pv ''reference'' = Returned reference"
      and "get_prop pv ''nn_tid'' = Returned nn_tid"
  shows "events (snd (snd (processNovalnetPayment tr this pv RpcResolved s)))
           = events s @ [JsonRpc ''/payment/novalnet/simulate_payment''
                           (JObj [(''reference'', reference), (''nn_tid'', nn_tid)]),
                         Navigate ''/payment/status'']"
  using assms by (simp add: processNovalnetPayment_def emit_def Let_def)

lemma processNovalnetPayment_classified:
  assumes "get_prop pv ''reference'' = Returned reference"
      and "get_prop pv ''nn_tid'' = Returned nn_tid"
      and "get_prop d ''message'' = Returned m"
      and "has_displayErrorDialog this"
  shows "events (snd (snd (processNovalnetPayment tr this pv (RpcRejected (RPCError d)) s)))
           = events s @ [JsonRpc ''/payment/novalnet/simulate_payment''
                           (JObj [(''reference'', reference), (''nn_tid'', nn_tid)]),
                         DisplayErrorDialog [tr (JStr ''Payment processing failed''), m]]
                      @ (if has_enableButton this then [EnableButton] else [])"
  using assms by (simp add: processNovalnetPayment_def catch_handler_def emit_def Let_def)

lemma processNovalnetPayment_unclassified:
  assumes "get_prop pv ''reference'' = Returned reference"
      and "get_prop pv ''nn_tid'' = Returned nn_tid"
  shows "fst (snd (processNovalnetPayment tr this pv (RpcRejected (OtherError msg)) s))
           = Settled (Threw (OtherError msg))"
  using assms by (simp add: processNovalnetPayment_def catch_handler_def emit_def Let_def)

subsection \<open>The wallet completion callback\<close>

text \<open>
  Claim C1. When the widget's completion does not report FAILURE and the radio checked at
  the time of the callback belongs to another provider, the handler returns the pair
  FAILURE / Failure, logs nothing but its opening call of \<open>_disableButton\<close> (so the
  payment flow is not initiated), and leaves every context key other than
  \<open>providerCode\<close> as it was (so no payment details are recorded).
\<close>

theorem onProcessCompletion_stale_selection:
  assumes "get_prop response ''result'' = Returned result"
      and "get_prop result ''status'' = Returned st"
      and "st \<noteq> JStr ''FAILURE''"
      and "sel_providerCode sel \<noteq> JStr ''novalnet''"
  shows "fst (onProcessCompletion sel response s) = Returned FAILURE_ack
    \<and> events (snd (onProcessCompletion sel response s)) = events s @ [DisableButton False]
    \<and> filter is_initiate_flow (events (snd (onProcessCompletion sel response s)))
        = filter is_initiate_flow (events s)
    \<and> (\<forall>k. k \<noteq> ''providerCode'' \<longrightarrow>
          paymentContext (snd (onProcessCompletion sel response s)) k = paymentContext s k)"
  using assms by (simp add: onProcessCompletion_def Let_def emit_def ctx_set_def)

theorem onProcessCompletion_stale_selection_witness:
  "get_prop wallet_success ''result'' = Returned (JObj [(''status'', JStr ''SUCCESS'')])
   \<and> get_prop (JObj [(''status'', JStr ''SUCCESS'')]) ''status'' = Returned (JStr ''SUCCESS'')
   \<and> JStr ''SUCCESS'' \<noteq> JStr ''FAILURE''
   \<and> sel_providerCode stripe_selection \<noteq> JStr ''novalnet''
   \<and> fst (onProcessCompletion stripe_selection wallet_success fresh_form)
        = Returned (''FAILURE'', ''Failure'')
   \<and> events (snd (onProcessCompletion stripe_selection wallet_success fresh_form))
        = [DisableButton False]
   \<and> paymentContext (snd (onProcessCompletion stripe_selection wallet_success fresh_form))
        ''pm_data'' = None"
  using onProcessCompletion_stale_selection
    [of wallet_success "JObj [(''status'', JStr ''SUCCESS'')]" "JStr ''SUCCESS''"
      stripe_selection fresh_form]
  by (simp add: wallet_success_def stripe_selection_def fresh_form_def FAILURE_ack_def)

text \<open>
  Claim C2 as stated fails. With this provider recorded in the context, a successful
  completion that arrives while another provider's radio is checked is answered with
  FAILURE, yet the context's \<open>providerCode\<close> has been overwritten. And a completion in
  which the widget reports FAILURE with the message "Card declined" is answered with the
  fixed text "Failure": the whole effect is the opening call of \<open>_disableButton\<close>, no
  dialog, and nothing of the payload is passed on.
\<close>

theorem onProcessCompletion_failure_overwrites_provider:
  "fst (onProcessCompletion stripe_selection wallet_success novalnet_form) = Returned FAILURE_ack
   \<and> paymentContext novalnet_form ''providerCode'' = Some (JStr ''novalnet'')
   \<and> paymentContext (snd (onProcessCompletion stripe_selection wallet_success novalnet_form))
        ''providerCode'' = Some (JStr ''stripe'')
   \<and> paymentContext (snd (onProcessCompletion stripe_selection wallet_success novalnet_form))
        \<noteq> paymentContext novalnet_form
   \<and> onProcessCompletion novalnet_selection wallet_failure novalnet_form
        = (Returned (''FAILURE'', ''Failure''), novalnet_form\<lparr>events := [DisableButton False]\<rparr>)"
proof -
  let ?s = "snd (onProcessCompletion stripe_selection wallet_success novalnet_form)"
  have a: "fst (onProcessCompletion stripe_selection wallet_success novalnet_form)
             = Returned FAILURE_ack"
    by (simp add: onProcessCompletion_def Let_def emit_def ctx_set_def wallet_success_def
        stripe_selection_def novalnet_form_def fresh_form_def)
  have b: "paymentContext novalnet_form ''providerCode'' = Some (JStr ''novalnet'')"
    by (simp add: novalnet_form_def fresh_form_def)
  have c: "paymentContext ?s ''providerCode'' = Some (JStr ''stripe'')"
    by (simp add: onProcessCompletion_def Let_def emit_def ctx_set_def wallet_success_def
        stripe_selection_def novalnet_form_def fresh_form_def)
  have d: "paymentContext ?s \<noteq> paymentContext novalnet_form"
  proof
    assume "paymentContext ?s = paymentContext novalnet_form"
    then have "paymentContext ?s ''providerCode'' = paymentContext novalnet_form ''providerCode''"
      by simp
    with b c show False by simp
  qed
  have e: "onProcessCompletion novalnet_selection wallet_failure novalnet_form
        = (Returned (''FAILURE'', ''Failure''), novalnet_form\<lparr>events := [DisableButton False]\<rparr>)"
    by (simp add: onProcessCompletion_def Let_def emit_def wallet_failure_def
        novalnet_form_def fresh_form_def FAILURE_ack_def)
  from a b c d e show ?thesis by simp
qed

text \<open>
  Claim C2, amended. Whenever the handler answers FAILURE, its only logged effect is the
  opening call of \<open>_disableButton\<close> (no dialog, no message from the payload); the
  context is unchanged when the widget itself reported FAILURE, and otherwise differs
  from the old one only in \<open>providerCode\<close>, which now holds the checked radio's provider.
\<close>

theorem onProcessCompletion_failure_frame:
  assumes "fst (onProcessCompletion sel response s) = Returned FAILURE_ack"
  shows "events (snd (onProcessCompletion sel response s)) = events s @ [DisableButton False]
    \<and> filter is_dialog (events (snd (onProcessCompletion sel response s)))
        = filter is_dialog (events s)
    \<and> paymentContext (snd (onProcessCompletion sel response s)) =
        (if (\<exists>result. get_prop response ''result'' = Returned result
               \<and> get_prop result ''status'' = Returned (JStr ''FAILURE''))
         then paymentContext s
         else (paymentContext s)(''providerCode'' \<mapsto> sel_providerCode sel))"
  using assms
  by (auto simp add: onProcessCompletion_def Let_def emit_def ctx_set_def acks_differ
      split: outcome.splits if_splits)

theorem onProcessCompletion_failure_frame_witness:
  "fst (onProcessCompletion novalnet_selection wallet_failure novalnet_form) = Returned FAILURE_ack
   \<and> events (snd (onProcessCompletion novalnet_selection wallet_failure novalnet_form))
       = [DisableButton False]
   \<and> paymentContext (snd (onProcessCompletion novalnet_selection wallet_failure novalnet_form))
       = paymentContext novalnet_form"
proof -
  have h: "fst (onProcessCompletion novalnet_selection wallet_failure novalnet_form)
             = Returned FAILURE_ack"
    by (simp add: onProcessCompletion_def Let_def emit_def wallet_failure_def)
  have r: "\<exists>result. get_prop wallet_failure ''result'' = Returned result
               \<and> get_prop result ''status'' = Returned (JStr ''FAILURE'')"
    by (simp add: wallet_failure_def)
  show ?thesis using h r onProcessCompletion_failure_frame [OF h]
    by (simp add: novalnet_form_def fresh_form_def)
qed

subsection \<open>Recording a widget result\<close>

text \<open>
  Claim C3 as stated fails twice. A booking blob that carries \<open>wallet_token\<close> with the
  empty string has the field present, yet no \<open>wallet_token\<close> key is written; and a
  context that already holds a wallet token keeps it when the next result has no
  \<open>wallet_token\<close> at all, so the key is not absent afterwards.
\<close>

theorem set_nn_payment_details_presence_counterexample:
  "get_prop accepted_empty_token ''booking_details'' = Returned (JObj [(''wallet_token'', JStr [])])
   \<and> has_key (JObj [(''wallet_token'', JStr [])]) ''wallet_token''
   \<and> fst (set_nn_payment_details accepted_empty_token Map.empty) = Returned ()
   \<and> snd (set_nn_payment_details accepted_empty_token Map.empty) ''wallet_token'' = None
   \<and> get_prop accepted ''booking_details'' = Returned (JObj [(''test_mode'', JNum 1)])
   \<and> \<not> has_key (JObj [(''test_mode'', JNum 1)]) ''wallet_token''
   \<and> fst (set_nn_payment_details accepted [''wallet_token'' \<mapsto> JStr ''tok_1'']) = Returned ()
   \<and> snd (set_nn_payment_details accepted [''wallet_token'' \<mapsto> JStr ''tok_1'']) ''wallet_token''
        = Some (JStr ''tok_1'')"
  by (simp add: set_nn_payment_details_def accepted_empty_token_def accepted_def Let_def)

text \<open>
  Claim C3, amended. For a result whose \<open>payment_details\<close> and \<open>booking_details\<close> can be
  read, the call completes; \<open>pm_data\<close> holds the payment details blob, \<open>payment_details\<close>
  the booking details blob, \<open>flow\<close> the payment details' \<open>process_mode\<close>; \<open>wallet_token\<close>
  and \<open>card_details\<close> are written exactly when the source value is truthy, and are
  otherwise left as the context had them (absent if they were absent), never bound to a
  placeholder; no other key changes.
\<close>

theorem set_nn_payment_details_records:
  assumes "get_prop response ''payment_details'' = Returned pd"
      and "get_prop response ''booking_details'' = Returned bd"
      and "get_prop pd ''process_mode'' = Returned pm"
      and "get_prop bd ''wallet_token'' = Returned wt"
      and "get_prop response ''card_details'' = Returned cd"
  shows "fst (set_nn_payment_details response c) = Returned ()
    \<and> snd (set_nn_payment_details response c) ''pm_data'' = Some pd
    \<and> snd (set_nn_payment_details response c) ''payment_details'' = Some bd
    \<and> snd (set_nn_payment_details response c) ''flow'' = Some pm
    \<and> snd (set_nn_payment_details response c) ''wallet_token'' =
           (if truthy wt then Some wt else c ''wallet_token'')
    \<and> snd (set_nn_payment_details response c) ''card_details'' =
           (if truthy cd then Some cd else c ''card_details'')
    \<and> (\<forall>k. k \<notin> {''pm_data'', ''payment_details'', ''flow'', ''wallet_token'', ''card_details''}
           \<longrightarrow> snd (set_nn_payment_details response c) k = c k)"
  using assms by (simp add: set_nn_payment_details_def Let_def)

theorem set_nn_payment_details_records_witness:
  "get_prop wallet_success ''payment_details''
     = Returned (JObj [(''type'', JStr ''GOOGLEPAY''), (''process_mode'', JStr ''direct'')])
   \<and> get_prop wallet_success ''booking_details'' = Returned (JObj [(''wallet_token'', JStr ''tok_1'')])
   \<and> get_prop wallet_success ''card_details'' = Returned JUndefined
   \<and> fst (set_nn_payment_details wallet_success Map.empty) = Returned ()
   \<and> snd (set_nn_payment_details wallet_success Map.empty) ''pm_data''
        = Some (JObj [(''type'', JStr ''GOOGLEPAY''), (''process_mode'', JStr ''direct'')])
   \<and> snd (set_nn_payment_details wallet_success Map.empty) ''payment_details''
        = Some (JObj [(''wallet_token'', JStr ''tok_1'')])
   \<and> snd (set_nn_payment_details wallet_success Map.empty) ''flow'' = Some (JStr ''direct'')
   \<and> snd (set_nn_payment_details wallet_success Map.empty) ''wallet_token'' = Some (JStr ''tok_1'')
   \<and> snd (set_nn_payment_details wallet_success Map.empty) ''card_details'' = None
   \<and> snd (set_nn_payment_details wallet_success Map.empty) ''mode'' = None"
  using set_nn_payment_details_records
    [of wallet_success "JObj [(''type'', JStr ''GOOGLEPAY''), (''process_mode'', JStr ''direct'')]"
      "JObj [(''wallet_token'', JStr ''tok_1'')]" "JStr ''direct''" "JStr ''tok_1''" JUndefined
      Map.empty]
  by (simp add: wallet_success_def)

subsection \<open>Submitting the form\<close>

text \<open>
  Claim C4. When the checked radio belongs to another provider, \<open>_submitForm\<close> stops
  the event, disables the submit control and hands over to the generic submit handling;
  it makes no call to the widget and no remote call.
\<close>

theorem submitForm_other_provider:
  assumes "sel_providerCode sel \<noteq> JStr ''novalnet''"
  shows "fst (submitForm sel s) = Delegated
    \<and> events (snd (submitForm sel s)) =
        events s @ [StopPropagation, PreventDefault, DisableButton True, SuperSubmitForm]
    \<and> filter is_widget_call (events (snd (submitForm sel s))) = filter is_widget_call (events s)
    \<and> filter is_remote_call (events (snd (submitForm sel s))) = filter is_remote_call (events s)"
  using assms by (simp add: submitForm_def Let_def emit_def ctx_set_def)

theorem submitForm_other_provider_witness:
  "sel_providerCode stripe_selection \<noteq> JStr ''novalnet''
   \<and> fst (submitForm stripe_selection fresh_form) = Delegated
   \<and> events (snd (submitForm stripe_selection fresh_form)) =
        [StopPropagation, PreventDefault, DisableButton True, SuperSubmitForm]
   \<and> filter is_widget_call (events (snd (submitForm stripe_selection fresh_form))) = []
   \<and> filter is_remote_call (events (snd (submitForm stripe_selection fresh_form))) = []"
  using submitForm_other_provider [of stripe_selection fresh_form]
  by (simp add: stripe_selection_def fresh_form_def)

text \<open>
  Claim C5. When the widget answers \<open>getPayment\<close> with a numeric status code other than
  100, the callback shows one error dialog whose text is the widget's message (passed
  through the host's translation lookup \<open>_t\<close>), then re-enables the submit control, and
  does nothing else: no remote call, no payment flow, the context untouched.
\<close>

theorem getPayment_callback_rejected:
  assumes "get_prop data ''result'' = Returned result"
      and "get_prop result ''statusCode'' = Returned (JNum n)"
      and "n \<noteq> 100"
      and "get_prop result ''message'' = Returned message"
  shows "fst (getPayment_callback str2num tr on_donation cl data s) = Returned ()
    \<and> events (snd (getPayment_callback str2num tr on_donation cl data s))
         = events s @ [DisplayErrorDialog [tr message], EnableButton]
    \<and> paymentContext (snd (getPayment_callback str2num tr on_donation cl data s)) = paymentContext s
    \<and> button_disabled (events (snd (getPayment_callback str2num tr on_donation cl data s))) d
         = False"
proof -
  have t: "truthy result" using assms(2) by (rule get_prop_JNum_truthy)
  have r: "getPayment_callback str2num tr on_donation cl data s
             = (Returned (), emit EnableButton (emit (DisplayErrorDialog [tr message]) s))"
    using assms t by (simp add: getPayment_callback_def)
  have b: "button_disabled ((events s @ [DisplayErrorDialog [tr message]]) @ [EnableButton]) d
             = False"
    by (rule button_disabled_snoc_enable)
  show ?thesis using b by (simp add: r emit_def)
qed

theorem getPayment_callback_rejected_witness:
  "get_prop declined ''result''
     = Returned (JObj [(''statusCode'', JNum 150), (''message'', JStr ''Card declined'')])
   \<and> (150::int) \<noteq> 100
   \<and> events (snd (getPayment_callback (\<lambda>x. None) (\<lambda>v. v) False novalnet_closure declined
        (snd (submitForm novalnet_selection fresh_form))))
      = [StopPropagation, PreventDefault, DisableButton True, WidgetGetPayment,
         DisplayErrorDialog [JStr ''Card declined''], EnableButton]"
  using getPayment_callback_rejected
    [of declined "JObj [(''statusCode'', JNum 150), (''message'', JStr ''Card declined'')]"
      150 "JStr ''Card declined''" "\<lambda>x. None" "\<lambda>v. v" False novalnet_closure
      "snd (submitForm novalnet_selection fresh_form)" True]
  by (simp add: declined_def submitForm_def Let_def emit_def ctx_set_def novalnet_selection_def
      fresh_form_def)

text \<open>
  Claim C10. The \<open>getPayment\<close> callback throws exactly when the answer has no \<open>result\<close>
  (undefined or null): it then reads \<open>data.result.message\<close> in the rejection branch and
  ends with a TypeError, with no dialog and the submit control not re-enabled. With any
  other \<open>result\<close> it returns, and everything but a truthy \<open>result\<close> whose status code
  equals 100 goes to the rejection branch, which shows the dialog and re-enables the
  control.
\<close>

theorem getPayment_callback_throws_without_result:
  "(get_prop data ''result'' = Returned JUndefined \<or> get_prop data ''result'' = Returned JNull \<longrightarrow>
      getPayment_callback str2num tr on_donation cl data s = (Threw TypeError, s))
   \<and> (get_prop data ''result'' = Returned result \<and> result \<noteq> JUndefined \<and> result \<noteq> JNull \<longrightarrow>
        fst (getPayment_callback str2num tr on_donation cl data s) = Returned ())
   \<and> (get_prop data ''result'' = Returned result \<and> result \<noteq> JUndefined \<and> result \<noteq> JNull
        \<and> get_prop result ''statusCode'' = Returned code
        \<and> get_prop result ''message'' = Returned message
        \<and> \<not> (truthy result \<and> loose_eq_100 str2num code) \<longrightarrow>
        getPayment_callback str2num tr on_donation cl data s
          = (Returned (), emit EnableButton (emit (DisplayErrorDialog [tr message]) s)))"
proof (intro conjI impI)
  assume "get_prop data ''result'' = Returned JUndefined \<or> get_prop data ''result'' = Returned JNull"
  then show "getPayment_callback str2num tr on_donation cl data s = (Threw TypeError, s)"
    by (auto simp add: getPayment_callback_def)
next
  assume a: "get_prop data ''result'' = Returned result \<and> result \<noteq> JUndefined \<and> result \<noteq> JNull"
  then obtain c m where "get_prop result ''statusCode'' = Returned c"
    "get_prop result ''message'' = Returned m"
    using get_prop_defined by blast
  with a show "fst (getPayment_callback str2num tr on_donation cl data s) = Returned ()"
    by (cases "loose_eq_100 str2num c") (simp_all add: getPayment_callback_def Let_def)
next
  assume "get_prop data ''result'' = Returned result \<and> result \<noteq> JUndefined \<and> result \<noteq> JNull
        \<and> get_prop result ''statusCode'' = Returned code
        \<and> get_prop result ''message'' = Returned message
        \<and> \<not> (truthy result \<and> loose_eq_100 str2num code)"
  then show "getPayment_callback str2num tr on_donation cl data s
          = (Returned (), emit EnableButton (emit (DisplayErrorDialog [tr message]) s))"
    by (auto simp add: getPayment_callback_def)
qed

theorem getPayment_callback_throws_without_result_witness:
  "get_prop no_result ''result'' = Returned JUndefined
   \<and> getPayment_callback (\<lambda>x. None) (\<lambda>v. v) False novalnet_closure no_result fresh_form
        = (Threw TypeError, fresh_form)
   \<and> get_prop declined ''result''
        = Returned (JObj [(''statusCode'', JNum 150), (''message'', JStr ''Card declined'')])
   \<and> fst (getPayment_callback (\<lambda>x. None) (\<lambda>v. v) False novalnet_closure declined fresh_form)
        = Returned ()"
  using getPayment_callback_throws_without_result
      [of no_result "\<lambda>x. None" "\<lambda>v. v" False novalnet_closure fresh_form]
    getPayment_callback_throws_without_result
      [of declined "\<lambda>x. None" "\<lambda>v. v" False novalnet_closure fresh_form
        "JObj [(''statusCode'', JNum 150), (''message'', JStr ''Card declined'')]"]
  by (simp add: declined_def no_result_def)

subsection \<open>The outgoing route parameters\<close>

text \<open>
  Claim C9. While the context's provider code is \<open>novalnet\<close>, the route parameters always
  carry the keys \<open>pay_data\<close> and \<open>pm_data\<close>, bound to the context's \<open>payment_details\<close> and
  \<open>pm_data\<close>; when nothing has been recorded they are present and bound to \<open>undefined\<close>.
  The generic parameters keep every other key. With any other provider code the generic
  parameters are returned as they are.
\<close>

theorem prepareTransactionRouteParams_keys:
  "(ctx_get c ''providerCode'' = JStr ''novalnet'' \<longrightarrow>
      prepareTransactionRouteParams super_params c ''pay_data'' = Some (ctx_get c ''payment_details'')
    \<and> prepareTransactionRouteParams super_params c ''pm_data'' = Some (ctx_get c ''pm_data'')
    \<and> (c ''payment_details'' = None \<longrightarrow>
         prepareTransactionRouteParams super_params c ''pay_data'' = Some JUndefined)
    \<and> (c ''pm_data'' = None \<longrightarrow>
         prepareTransactionRouteParams super_params c ''pm_data'' = Some JUndefined)
    \<and> dom (prepareTransactionRouteParams super_params c)
         = dom super_params \<union> {''pay_data'', ''pm_data''}
    \<and> (\<forall>k. k \<noteq> ''pay_data'' \<and> k \<noteq> ''pm_data'' \<longrightarrow>
          prepareTransactionRouteParams super_params c k = super_params k))
   \<and> (ctx_get c ''providerCode'' \<noteq> JStr ''novalnet'' \<longrightarrow>
        prepareTransactionRouteParams super_params c = super_params)"
  by (auto simp add: prepareTransactionRouteParams_def ctx_get_def map_add_def)

theorem prepareTransactionRouteParams_keys_witness:
  "ctx_get (paymentContext novalnet_form) ''providerCode'' = JStr ''novalnet''
   \<and> paymentContext novalnet_form ''payment_details'' = None
   \<and> paymentContext novalnet_form ''pm_data'' = None
   \<and> prepareTransactionRouteParams [''provider_id'' \<mapsto> JNum 5] (paymentContext novalnet_form)
        ''pay_data'' = Some JUndefined
   \<and> prepareTransactionRouteParams [''provider_id'' \<mapsto> JNum 5] (paymentContext novalnet_form)
        ''pm_data'' = Some JUndefined
   \<and> prepareTransactionRouteParams [''provider_id'' \<mapsto> JNum 5] (paymentContext novalnet_form)
        ''provider_id'' = Some (JNum 5)
   \<and> ctx_get Map.empty ''providerCode'' \<noteq> JStr ''novalnet''
   \<and> prepareTransactionRouteParams [''provider_id'' \<mapsto> JNum 5] Map.empty
        = [''provider_id'' \<mapsto> JNum 5]"
  using prepareTransactionRouteParams_keys
      [of "paymentContext novalnet_form" "[''provider_id'' \<mapsto> JNum 5]"]
    prepareTransactionRouteParams_keys [of Map.empty "[''provider_id'' \<mapsto> JNum 5]"]
  by (simp add: novalnet_form_def fresh_form_def ctx_get_def)

subsection \<open>Finalizing the payment\<close>

text \<open>
  Claim C6, at the call the form makes. \<open>_processDirectFlow\<close> invokes the method on the
  mixin object, so inside it \<open>this\<close> has neither \<open>_displayErrorDialog\<close> nor
  \<open>_enableButton\<close>. When the server refuses the call with the message
  "Reference expired", the remote call has been issued with the reference and the
  transaction id, and the catch handler ends with a TypeError: no dialog is shown, the
  submit control is not re-enabled, and the rejection is left unhandled.
\<close>

theorem processDirectFlow_classified_error_throws:
  "processDirectFlow (\<lambda>v. v) (JStr ''novalnet'') processing_values expired fresh_form
     = (Settled (Threw TypeError),
        fresh_form\<lparr>events :=
          [JsonRpc ''/payment/novalnet/simulate_payment''
             (JObj [(''reference'', JStr ''S00042-1''), (''nn_tid'', JStr ''14850900024915824'')]),
           UnhandledRejection TypeError]\<rparr>)"
  by (simp add: processDirectFlow_def processNovalnetPayment_def catch_handler_def mixin_object_def
      expired_def processing_values_def fresh_form_def emit_def Let_def)

text \<open>
  Claim C8, at two failure paths. A wallet completion in which the widget reports
  FAILURE starts by disabling the submit control and returns without enabling it again.
  And a submit that the widget accepts, whose remote call the server then refuses, ends
  with the control still disabled: the catch handler throws before it reaches
  \<open>_enableButton\<close>.
\<close>

theorem submit_control_left_disabled:
  "onProcessCompletion novalnet_selection wallet_failure fresh_form
     = (Returned FAILURE_ack, fresh_form\<lparr>events := [DisableButton False]\<rparr>)
   \<and> button_disabled [DisableButton False] False = True
   \<and> events (snd (processDirectFlow (\<lambda>v. v) (JStr ''novalnet'') processing_values expired
        (snd (getPayment_callback (\<lambda>x. None) (\<lambda>v. v) False novalnet_closure accepted
          (snd (submitForm novalnet_selection fresh_form))))))
      = [StopPropagation, PreventDefault, DisableButton True, WidgetGetPayment,
         InitiatePaymentFlow (JStr ''novalnet'') (JNum 12) (JStr ''novalnet'') (JStr ''direct''),
         JsonRpc ''/payment/novalnet/simulate_payment''
           (JObj [(''reference'', JStr ''S00042-1''), (''nn_tid'', JStr ''14850900024915824'')]),
         UnhandledRejection TypeError]
   \<and> button_disabled [StopPropagation, PreventDefault, DisableButton True, WidgetGetPayment,
         InitiatePaymentFlow (JStr ''novalnet'') (JNum 12) (JStr ''novalnet'') (JStr ''direct''),
         JsonRpc ''/payment/novalnet/simulate_payment''
           (JObj [(''reference'', JStr ''S00042-1''), (''nn_tid'', JStr ''14850900024915824'')]),
         UnhandledRejection TypeError] False = True"
proof -
  have a: "onProcessCompletion novalnet_selection wallet_failure fresh_form
     = (Returned FAILURE_ack, fresh_form\<lparr>events := [DisableButton False]\<rparr>)"
    by (simp add: onProcessCompletion_def Let_def emit_def wallet_failure_def fresh_form_def)
  have s: "events (snd (submitForm novalnet_selection fresh_form))
             = [StopPropagation, PreventDefault, DisableButton True, WidgetGetPayment]"
    by (simp add: submitForm_def Let_def emit_def ctx_set_def novalnet_selection_def
        fresh_form_def ctx_get_def)
  have g: "events (snd (getPayment_callback (\<lambda>x. None) (\<lambda>v. v) False novalnet_closure accepted st))
             = events st @ [InitiatePaymentFlow (JStr ''novalnet'') (JNum 12) (JStr ''novalnet'')
                 (JStr ''direct'')]" for st
    by (simp add: getPayment_callback_def accepted_def record_details_def
        set_nn_payment_details_def Let_def emit_def ctx_get_def novalnet_closure_def)
  have p: "events (snd (processDirectFlow (\<lambda>v. v) (JStr ''novalnet'') processing_values expired st))
             = events st @ [JsonRpc ''/payment/novalnet/simulate_payment''
                 (JObj [(''reference'', JStr ''S00042-1''), (''nn_tid'', JStr ''14850900024915824'')]),
               UnhandledRejection TypeError]" for st
    by (simp add: processDirectFlow_def processNovalnetPayment_def catch_handler_def
        mixin_object_def expired_def processing_values_def emit_def Let_def)
  show ?thesis by (simp add: a s g p)
qed

subsection \<open>Starting the form twice\<close>

text \<open>
  Claim C7 as stated fails. After two calls of \<open>start\<close> on a fresh form, two click
  handlers and two change handlers are registered: one click on another provider's
  element calls the widget's \<open>uncheckPayment\<close> twice, and one change event on the window
  sets the pay button's display twice.
\<close>

theorem start_twice_double_registers:
  "provider_click_handlers (start (start fresh_form)) = 2
   \<and> window_change_handlers (start (start fresh_form)) = 2
   \<and> events (fire_provider_click (JStr ''stripe'') (start (start fresh_form)))
       = events (start (start fresh_form)) @ [WidgetUncheckPayment, WidgetUncheckPayment]
   \<and> fst (fire_window_change True False (start (start fresh_form))) = Returned ()
   \<and> events (snd (fire_window_change True False (start (start fresh_form))))
       = events (start (start fresh_form))
           @ [SetPayButtonDisplay ''block'', SetPayButtonDisplay ''block'']"
  by (simp add: start_def Let_def emit_def fresh_form_def fire_provider_click_def
      provider_click_handler_def fire_window_change_def window_change_handler_def
      numeral_2_eq_2)

text \<open>
  Claim C7, amended. Each call of \<open>start\<close> adds one click handler and one change handler
  to those already registered, and puts a new widget object with exactly one selection
  callback and one completion callback in place of the previous one. After two calls a
  click on another provider's element therefore runs the click handler's effect once
  per handler registered: twice more than before the calls.
\<close>

theorem start_twice_registrations:
  "provider_click_handlers (start (start s)) = provider_click_handlers s + 2
   \<and> window_change_handlers (start (start s)) = window_change_handlers s + 2
   \<and> selectedPayment_callbacks (start (start s)) = 1
   \<and> walletResponse_callbacks (start (start s)) = 1
   \<and> widgets_created (start (start s)) = widgets_created s + 2
   \<and> events (fire_provider_click code (start (start s)))
       = events (start (start s)) @
           (if code \<noteq> JStr ''novalnet''
            then replicate (provider_click_handlers s + 2) WidgetUncheckPayment else [])"
proof -
  have n: "provider_click_handlers (start (start s)) = provider_click_handlers s + 2"
    by (simp add: start_def Let_def emit_def)
  show ?thesis
    unfolding fire_provider_click_def funpow_click_events n
    by (simp add: start_def Let_def emit_def)
qed

end
